theory Spec2Isabelle
  imports Main "HOL-Library.Sublist" "HOL-Library.AList"
begin

section \<open>Python values and exceptions\<close>

text \<open>
  Every exception the modelled code can raise is a value of \<open>error\<close>; a computation that
  may raise returns \<open>error + 'a\<close> with \<open>Inl\<close> for the exception.  \<open>Unmodelled\<close> is not a
  Python exception: it marks an input on which the model of a third-party library
  (PyYAML, Jinja2, pathlib) says nothing.
\<close>

datatype error =
    FileNotFoundError | IsADirectoryError | NotADirectoryError | FileExistsError
  | YAMLError | AttributeError | TypeError | KeyError | ValueError
  | TemplateSyntaxError | NoSuchPathError | Unmodelled

text \<open>
  The result of \<open>yaml.safe_load\<close>.  Mappings keep their keys in document order; keys are
  strings (a key of another type never equals one of the string keys the code looks up).
  \<open>YOther b\<close> stands for any other scalar the loader builds (float, timestamp, binary), of
  which the code observes only the truth value \<open>b\<close>.
\<close>

datatype yaml =
    YNull | YBool bool | YInt int | YStr string
  | YList "yaml list" | YMap "(string \<times> yaml) list" | YOther bool

fun truthy :: "yaml \<Rightarrow> bool" where
  "truthy YNull = False"
| "truthy (YBool b) = b"
| "truthy (YInt i) = (i \<noteq> 0)"
| "truthy (YStr s) = (s \<noteq> [])"
| "truthy (YList xs) = (xs \<noteq> [])"
| "truthy (YMap m) = (m \<noteq> [])"
| "truthy (YOther b) = b"

text \<open>\<^verbatim>\<open>yaml.safe_load(f) or {}\<close>\<close>

definition or_empty_dict :: "yaml \<Rightarrow> yaml" where
  "or_empty_dict v = (if truthy v then v else YMap [])"

text \<open>\<^verbatim>\<open>d.get(k, default)\<close>: only a mapping has \<open>get\<close>.\<close>

fun dict_get :: "yaml \<Rightarrow> string \<Rightarrow> yaml \<Rightarrow> error + yaml" where
  "dict_get (YMap m) k d = Inr (case map_of m k of None \<Rightarrow> d | Some v \<Rightarrow> v)"
| "dict_get _ k d = Inl AttributeError"

text \<open>\<^verbatim>\<open>v.startswith(p)\<close> with a string \<open>p\<close>: only a string answers.\<close>

fun str_startswith :: "yaml \<Rightarrow> string \<Rightarrow> error + bool" where
  "str_startswith (YStr s) p = Inr (prefix p s)"
| "str_startswith _ p = Inl AttributeError"

fun str_contains :: "string \<Rightarrow> string \<Rightarrow> bool" where
  "str_contains sub [] = (sub = [])"
| "str_contains sub (c # s) = (prefix sub (c # s) \<or> str_contains sub s)"

text \<open>
  \<^verbatim>\<open>k in v\<close> for a string \<open>k\<close>: key membership in a mapping, element membership in a
  list, substring in a string, \<open>TypeError\<close> on anything else.
\<close>

fun py_in :: "string \<Rightarrow> yaml \<Rightarrow> error + bool" where
  "py_in k (YMap m) = Inr (map_of m k \<noteq> None)"
| "py_in k (YList xs) = Inr (YStr k \<in> set xs)"
| "py_in k (YStr s) = Inr (str_contains k s)"
| "py_in k _ = Inl TypeError"



function str_replace :: "string \<Rightarrow> string \<Rightarrow> string \<Rightarrow> string" where
  "str_replace old new [] = []"
| "str_replace old new (c # s) =
     (if old \<noteq> [] \<and> prefix old (c # s)
      then new @ str_replace old new (drop (length old) (c # s))
      else c # str_replace old new s)"
  by pat_completeness auto
termination
  by (relation "measure (\<lambda>(old, new, s). length s)") auto

section \<open>Paths and the filesystem\<close>

text \<open>
  A \<open>pathlib\<close> path is the list of its parts; \<open>[]\<close> is the current directory and an
  absolute path starts with the part \<open>''/''\<close>.  \<open>str(p)\<close> is \<open>path_str p\<close>; where the
  source stores \<open>str(p)\<close> in a dictionary and later rebuilds \<open>Path\<close> from it, the model
  keeps \<open>p\<close>.
\<close>

type_synonym path = "string list"

definition path_name :: "path \<Rightarrow> string" where
  "path_name p = (if p = [] then [] else last p)"

definition parent :: "path \<Rightarrow> path" where
  "parent p = butlast p"

fun split_slash :: "string \<Rightarrow> string \<Rightarrow> string list" where
  "split_slash cur [] = [rev cur]"
| "split_slash cur (c # s) =
     (if c = CHR ''/'' then rev cur # split_slash [] s else split_slash (c # cur) s)"

definition path_parts :: "string \<Rightarrow> path" where
  "path_parts s = filter (\<lambda>x. x \<noteq> [] \<and> x \<noteq> ''.'') (split_slash [] s)"

text \<open>\<^verbatim>\<open>p / s\<close>: an absolute \<open>s\<close> replaces \<open>p\<close>, a relative one is appended part by part.\<close>

definition pjoin :: "path \<Rightarrow> string \<Rightarrow> path" where
  "pjoin p s = (if prefix ''/'' s then ''/'' # path_parts s else p @ path_parts s)"

fun join_slash :: "string list \<Rightarrow> string" where
  "join_slash [] = []"
| "join_slash [x] = x"
| "join_slash (x # y # ys) = x @ ''/'' @ join_slash (y # ys)"

definition path_str :: "path \<Rightarrow> string" where
  "path_str p =
     (if p = [] then ''.''
      else if hd p = ''/'' then ''/'' @ join_slash (tl p)
      else join_slash p)"

text \<open>\<^verbatim>\<open>PurePath.suffix\<close> and \<^verbatim>\<open>PurePath.stem\<close>, from the last dot of the name.\<close>

definition path_suffix :: "path \<Rightarrow> string" where
  "path_suffix p =
     (let nm = path_name p; ext = rev (takeWhile (\<lambda>c. c \<noteq> CHR ''.'') (rev nm))
      in if CHR ''.'' \<in> set nm \<and> ext \<noteq> [] \<and> length ext + 1 < length nm
         then CHR ''.'' # ext else [])"

definition path_stem :: "path \<Rightarrow> string" where
  "path_stem p = take (length (path_name p) - length (path_suffix p)) (path_name p)"

text \<open>
  The filesystem is the table of its entries, in the order in which the operating system
  enumerates them.  Both repositories of a command live in the same table.  File contents
  are byte strings; text is read and written without transcoding.
\<close>

datatype fsnode = Dir | File string

type_synonym filesystem = "(path \<times> fsnode) list"

definition fs_node :: "filesystem \<Rightarrow> path \<Rightarrow> fsnode option" where
  "fs_node fs p = (if p = [] then Some Dir else map_of fs p)"

definition exists :: "filesystem \<Rightarrow> path \<Rightarrow> bool" where
  "exists fs p = (fs_node fs p \<noteq> None)"

definition is_dir :: "filesystem \<Rightarrow> path \<Rightarrow> bool" where
  "is_dir fs p = (fs_node fs p = Some Dir)"

definition is_file :: "filesystem \<Rightarrow> path \<Rightarrow> bool" where
  "is_file fs p = (case fs_node fs p of Some (File c) \<Rightarrow> True | _ \<Rightarrow> False)"

text \<open>\<^verbatim>\<open>open(p).read()\<close>, \<^verbatim>\<open>read_text\<close>, \<^verbatim>\<open>read_bytes\<close>\<close>

definition read_text :: "filesystem \<Rightarrow> path \<Rightarrow> error + string" where
  "read_text fs p =
     (case fs_node fs p of
        None \<Rightarrow> Inl FileNotFoundError
      | Some Dir \<Rightarrow> Inl IsADirectoryError
      | Some (File c) \<Rightarrow> Inr c)"

definition children :: "filesystem \<Rightarrow> path \<Rightarrow> path list" where
  "children fs d = filter (\<lambda>p. p \<noteq> [] \<and> parent p = d) (map fst fs)"

definition iterdir :: "filesystem \<Rightarrow> path \<Rightarrow> error + path list" where
  "iterdir fs d =
     (case fs_node fs d of
        None \<Rightarrow> Inl FileNotFoundError
      | Some (File c) \<Rightarrow> Inl NotADirectoryError
      | Some Dir \<Rightarrow> Inr (children fs d))"

text \<open>\<^verbatim>\<open>d.glob(pat)\<close> for a pattern without a slash: the entries of \<open>d\<close> whose name matches.\<close>

definition glob :: "filesystem \<Rightarrow> path \<Rightarrow> (string \<Rightarrow> bool) \<Rightarrow> path list" where
  "glob fs d pat = (if is_dir fs d then filter (\<lambda>p. pat (path_name p)) (children fs d) else [])"

text \<open>\<^verbatim>\<open>d.rglob(pat)\<close>: every entry below \<open>d\<close>, at any depth, whose name matches.\<close>

definition rglob :: "filesystem \<Rightarrow> path \<Rightarrow> (string \<Rightarrow> bool) \<Rightarrow> path list" where
  "rglob fs d pat =
     (if is_dir fs d
      then filter (\<lambda>p. strict_prefix d p \<and> pat (path_name p)) (map fst fs)
      else [])"

text \<open>The three name patterns of the source, as \<open>fnmatch\<close> reads them.\<close>

definition match_yaml :: "string \<Rightarrow> bool" where
  "match_yaml nm = suffix ''.yaml'' nm"

definition match_application_yaml :: "string \<Rightarrow> bool" where
  "match_application_yaml nm =
     (suffix ''.yaml'' nm \<and> str_contains ''application'' (take (length nm - 5) nm))"

definition match_any :: "string \<Rightarrow> bool" where
  "match_any nm = True"

text \<open>
  \<^verbatim>\<open>p.mkdir(parents=True, exist_ok=True)\<close>: walks the prefixes of \<open>p\<close> from the top,
  creating the missing ones; a file in the way is an error and nothing is created.
\<close>

fun mkdir_each :: "filesystem \<Rightarrow> path list \<Rightarrow> error + filesystem" where
  "mkdir_each fs [] = Inr fs"
| "mkdir_each fs (q # qs) =
     (case fs_node fs q of
        Some Dir \<Rightarrow> mkdir_each fs qs
      | Some (File c) \<Rightarrow> Inl (if qs = [] then FileExistsError else NotADirectoryError)
      | None \<Rightarrow> mkdir_each (fs @ [(q, Dir)]) qs)"

definition mkdir_parents :: "filesystem \<Rightarrow> path \<Rightarrow> error + filesystem" where
  "mkdir_parents fs p = mkdir_each fs (prefixes p)"

text \<open>\<^verbatim>\<open>p.write_text(c)\<close>, \<^verbatim>\<open>p.write_bytes(c)\<close>: the parent must be a directory.\<close>

definition write_text :: "filesystem \<Rightarrow> path \<Rightarrow> string \<Rightarrow> error + filesystem" where
  "write_text fs p c =
     (if fs_node fs p = Some Dir then Inl IsADirectoryError
      else if p = [] \<or> \<not> is_dir fs (parent p) then Inl FileNotFoundError
      else Inr (AList.update p (File c) fs))"

section \<open>External collaborators\<close>

text \<open>A value bound to a template variable, or the result of a template expression.\<close>

datatype jval = JUndefined | JStr string | JInt int | JBool bool

type_synonym variables = "string \<rightharpoonup> jval"

text \<open>
  The libraries the code calls are parameters of the model: \<open>safe_load\<close> is
  \<^verbatim>\<open>yaml.safe_load\<close> on the text of a file, \<open>render\<close> is
  \<^verbatim>\<open>Template(content).render(**variables)\<close>, and \<open>git_remotes\<close> gives, for a directory that
  GitPython accepts as a repository, the table of its remotes (name, URL).
\<close>

record env =
  safe_load :: "string \<Rightarrow> error + yaml"
  render :: "string \<Rightarrow> variables \<Rightarrow> error + string"
  git_remotes :: "path \<Rightarrow> (string \<times> string) list option"

text \<open>
  \<^verbatim>\<open>GitHelper.get_remote_url\<close>: \<open>Repo(repo_path)\<close> raises \<open>NoSuchPathError\<close> for a missing
  path (not caught); an invalid repository and a missing remote \<open>origin\<close> give \<open>None\<close>.
\<close>

definition get_remote_url :: "env \<Rightarrow> filesystem \<Rightarrow> path \<Rightarrow> error + string option" where
  "get_remote_url e fs repo_path =
     (if \<not> exists fs repo_path then Inl NoSuchPathError
      else case git_remotes e repo_path of
             None \<Rightarrow> Inr None
           | Some remotes \<Rightarrow> Inr (map_of remotes ''origin''))"

section \<open>Pattern detectors\<close>

text \<open>
  The pattern dictionary.  \<open>version\<close> and \<open>template_count\<close> are set for charts only,
  \<open>source_type\<close> for applications only; an absent key is \<open>None\<close>.
\<close>

record pattern =
  ptype :: string
  pname :: yaml
  ppath :: path
  configs :: "path list"
  version :: "yaml option"
  template_count :: "nat option"
  source_type :: "string option"

text \<open>A line printed by a detector: the file or directory and the exception caught.\<close>

datatype diag = HelmError path error | ArgoCDError path error

subsection \<open>Charts\<close>

text \<open>The body of the \<open>try\<close> block of \<^verbatim>\<open>HelmPatternDetector._analyze_helm_chart\<close>.\<close>

definition analyze_helm_chart_try :: "env \<Rightarrow> filesystem \<Rightarrow> path \<Rightarrow> error + pattern" where
  "analyze_helm_chart_try e fs chart_dir =
     (case read_text fs (pjoin chart_dir ''Chart.yaml'') of
        Inl x \<Rightarrow> Inl x
      | Inr txt \<Rightarrow>
     (case safe_load e txt of
        Inl x \<Rightarrow> Inl x
      | Inr doc \<Rightarrow>
     (let chart_data = or_empty_dict doc in
      case dict_get chart_data ''name'' (YStr (path_name chart_dir)) of
        Inl x \<Rightarrow> Inl x
      | Inr nm \<Rightarrow>
     (case dict_get chart_data ''version'' (YStr ''0.1.0'') of
        Inl x \<Rightarrow> Inl x
      | Inr ver \<Rightarrow>
     (let values_file = pjoin chart_dir ''values.yaml'';
          templates_dir = pjoin chart_dir ''templates''
      in Inr \<lparr> ptype = ''helm'', pname = nm, ppath = chart_dir,
               configs = (if exists fs values_file then [values_file] else []),
               version = Some ver,
               template_count =
                 (if exists fs templates_dir
                  then Some (length (glob fs templates_dir match_yaml)) else None),
               source_type = None \<rparr>)))))"

text \<open>\<^verbatim>\<open>_analyze_helm_chart\<close>: the pattern, or \<open>None\<close> and a printed line.\<close>

definition analyze_helm_chart :: "env \<Rightarrow> filesystem \<Rightarrow> path \<Rightarrow> pattern option \<times> diag list" where
  "analyze_helm_chart e fs chart_dir =
     (case analyze_helm_chart_try e fs chart_dir of
        Inr p \<Rightarrow> (Some p, [])
      | Inl x \<Rightarrow> (None, [HelmError chart_dir x]))"

text \<open>The test of \<^verbatim>\<open>HelmPatternDetector.detect\<close> that skips a \<open>Chart.yaml\<close>.\<close>

definition helm_skipped :: "path \<Rightarrow> bool" where
  "helm_skipped chart_file =
     ((\<exists>part \<in> set chart_file. prefix ''.'' part)
      \<or> ''node_modules'' \<in> set chart_file \<or> ''vendor'' \<in> set chart_file)"

fun helm_detect_loop ::
  "env \<Rightarrow> filesystem \<Rightarrow> path list \<Rightarrow> pattern list \<times> diag list \<Rightarrow> pattern list \<times> diag list"
where
  "helm_detect_loop e fs [] acc = acc"
| "helm_detect_loop e fs (chart_file # rest) (patterns, out) =
     (if helm_skipped chart_file then helm_detect_loop e fs rest (patterns, out)
      else case analyze_helm_chart e fs (parent chart_file) of
             (Some p, ds) \<Rightarrow> helm_detect_loop e fs rest (patterns @ [p], out @ ds)
           | (None, ds) \<Rightarrow> helm_detect_loop e fs rest (patterns, out @ ds))"

definition helm_detect :: "env \<Rightarrow> filesystem \<Rightarrow> path \<Rightarrow> pattern list \<times> diag list" where
  "helm_detect e fs repo_path =
     helm_detect_loop e fs (rglob fs repo_path (\<lambda>nm. nm = ''Chart.yaml'')) ([], [])"

subsection \<open>GitOps applications\<close>

text \<open>
  The test of \<^verbatim>\<open>ArgoCDPatternDetector._is_argocd_app\<close> on the loaded document: the
  expression under \<open>return\<close>, with \<open>and\<close> evaluating its right operand only when the left
  one holds.
\<close>

definition classify :: "yaml \<Rightarrow> error + bool" where
  "classify doc =
     (let data = or_empty_dict doc in
      case dict_get data ''apiVersion'' (YStr []) of
        Inl x \<Rightarrow> Inl x
      | Inr av \<Rightarrow>
     (case str_startswith av ''argoproj.io/'' of
        Inl x \<Rightarrow> Inl x
      | Inr b \<Rightarrow>
     (if \<not> b then Inr False
      else case dict_get data ''kind'' YNull of
             Inl x \<Rightarrow> Inl x
           | Inr k \<Rightarrow> Inr (k = YStr ''Application''))))"

text \<open>\<^verbatim>\<open>_is_argocd_app\<close>: any exception of the \<open>try\<close> block is \<open>False\<close>.\<close>

definition is_argocd_app :: "env \<Rightarrow> filesystem \<Rightarrow> path \<Rightarrow> bool" where
  "is_argocd_app e fs file_path =
     (case read_text fs file_path of
        Inl x \<Rightarrow> False
      | Inr txt \<Rightarrow>
     (case safe_load e txt of
        Inl x \<Rightarrow> False
      | Inr doc \<Rightarrow>
     (case classify doc of Inl x \<Rightarrow> False | Inr b \<Rightarrow> b)))"

text \<open>The body of the \<open>try\<close> block of \<^verbatim>\<open>_analyze_argocd_app\<close>.\<close>

definition analyze_argocd_app_try :: "env \<Rightarrow> filesystem \<Rightarrow> path \<Rightarrow> error + pattern" where
  "analyze_argocd_app_try e fs app_file =
     (case read_text fs app_file of
        Inl x \<Rightarrow> Inl x
      | Inr txt \<Rightarrow>
     (case safe_load e txt of
        Inl x \<Rightarrow> Inl x
      | Inr doc \<Rightarrow>
     (let app_data = or_empty_dict doc in
      case dict_get app_data ''metadata'' (YMap []) of
        Inl x \<Rightarrow> Inl x
      | Inr metadata \<Rightarrow>
     (case dict_get app_data ''spec'' (YMap []) of
        Inl x \<Rightarrow> Inl x
      | Inr spec \<Rightarrow>
     (case dict_get metadata ''name'' (YStr (path_stem app_file)) of
        Inl x \<Rightarrow> Inl x
      | Inr nm \<Rightarrow>
     (case dict_get spec ''source'' (YMap []) of
        Inl x \<Rightarrow> Inl x
      | Inr source \<Rightarrow>
     (case py_in ''helm'' source of
        Inl x \<Rightarrow> Inl x
      | Inr has_helm \<Rightarrow>
        Inr \<lparr> ptype = ''argocd'', pname = nm, ppath = parent app_file,
              configs = [app_file], version = None, template_count = None,
              source_type = Some (if has_helm then ''helm'' else ''kustomize'') \<rparr>)))))))"

definition analyze_argocd_app :: "env \<Rightarrow> filesystem \<Rightarrow> path \<Rightarrow> pattern option \<times> diag list" where
  "analyze_argocd_app e fs app_file =
     (case analyze_argocd_app_try e fs app_file of
        Inr p \<Rightarrow> (Some p, [])
      | Inl x \<Rightarrow> (None, [ArgoCDError app_file x]))"

text \<open>\<^verbatim>\<open>_scan_argocd_directory\<close>: the loop over \<^verbatim>\<open>argocd_dir.glob('*.yaml')\<close>.\<close>

fun scan_argocd_loop ::
  "env \<Rightarrow> filesystem \<Rightarrow> path list \<Rightarrow> pattern list \<times> diag list \<Rightarrow> pattern list \<times> diag list"
where
  "scan_argocd_loop e fs [] acc = acc"
| "scan_argocd_loop e fs (yaml_file # rest) (patterns, out) =
     (if is_argocd_app e fs yaml_file
      then case analyze_argocd_app e fs yaml_file of
             (Some p, ds) \<Rightarrow> scan_argocd_loop e fs rest (patterns @ [p], out @ ds)
           | (None, ds) \<Rightarrow> scan_argocd_loop e fs rest (patterns, out @ ds)
      else scan_argocd_loop e fs rest (patterns, out))"

definition scan_argocd_directory ::
  "env \<Rightarrow> filesystem \<Rightarrow> path \<Rightarrow> pattern list \<times> diag list" where
  "scan_argocd_directory e fs argocd_dir =
     scan_argocd_loop e fs (glob fs argocd_dir match_yaml) ([], [])"

definition argocd_paths :: "string list" where
  "argocd_paths = [''argocd'', ''argo-cd'', ''deployments/argocd'', ''k8s/argocd'', ''.argocd'']"

text \<open>The first loop of \<^verbatim>\<open>ArgoCDPatternDetector.detect\<close>, over the conventional directories.\<close>

fun argocd_dirs_loop ::
  "env \<Rightarrow> filesystem \<Rightarrow> path \<Rightarrow> string list \<Rightarrow> pattern list \<times> diag list
   \<Rightarrow> pattern list \<times> diag list"
where
  "argocd_dirs_loop e fs repo_path [] acc = acc"
| "argocd_dirs_loop e fs repo_path (argocd_path # rest) (patterns, out) =
     (let full_path = pjoin repo_path argocd_path in
      if exists fs full_path \<and> is_dir fs full_path
      then (case scan_argocd_directory e fs full_path of
              (ps, ds) \<Rightarrow> argocd_dirs_loop e fs repo_path rest (patterns @ ps, out @ ds))
      else argocd_dirs_loop e fs repo_path rest (patterns, out))"

text \<open>The second loop, over \<^verbatim>\<open>repo_path.rglob('*application*.yaml')\<close>.\<close>

fun argocd_files_loop ::
  "env \<Rightarrow> filesystem \<Rightarrow> path list \<Rightarrow> pattern list \<times> diag list \<Rightarrow> pattern list \<times> diag list"
where
  "argocd_files_loop e fs [] acc = acc"
| "argocd_files_loop e fs (app_file # rest) (patterns, out) =
     (if is_argocd_app e fs app_file
      then case analyze_argocd_app e fs app_file of
             (Some p, ds) \<Rightarrow>
               (if p \<notin> set patterns
                then argocd_files_loop e fs rest (patterns @ [p], out @ ds)
                else argocd_files_loop e fs rest (patterns, out @ ds))
           | (None, ds) \<Rightarrow> argocd_files_loop e fs rest (patterns, out @ ds)
      else argocd_files_loop e fs rest (patterns, out))"

definition argocd_detect :: "env \<Rightarrow> filesystem \<Rightarrow> path \<Rightarrow> pattern list \<times> diag list" where
  "argocd_detect e fs repo_path =
     argocd_files_loop e fs (rglob fs repo_path match_application_yaml)
       (argocd_dirs_loop e fs repo_path argocd_paths ([], []))"

section \<open>Repository scanner\<close>

text \<open>\<^verbatim>\<open>DeploymentScanner.scan_repository\<close>: the patterns, and the lines printed on the way.\<close>

definition scan_repository :: "env \<Rightarrow> filesystem \<Rightarrow> path \<Rightarrow> pattern list \<times> diag list" where
  "scan_repository e fs repo_path =
     (case helm_detect e fs repo_path of
        (hs, hout) \<Rightarrow>
     (case argocd_detect e fs repo_path of
        (as, aout) \<Rightarrow> (hs @ as, hout @ aout)))"

section \<open>Parameter extraction\<close>

record helm_parameters =
  appName :: yaml
  namespace :: yaml
  image :: "string \<rightharpoonup> yaml"




section \<open>Template rendering\<close>

text \<open>
  A model of \<^verbatim>\<open>jinja2.Template(content).render(**variables)\<close> with the default
  environment, for the fragment of the template language that the templates of
  \<open>TemplateEngine\<close> are written in: text, \<open>{{ e }}\<close> and \<open>{% if e %} ... {% endif %}\<close>, where
  \<open>e\<close> is a name, a string, an integer or a truth value, possibly piped through
  \<open>default(...)\<close>, and for \<open>if\<close> also an equality of two such.  On every other input the
  model answers either \<open>TemplateSyntaxError\<close>, where Jinja2 rejects the template, or
  \<open>Unmodelled\<close>.
\<close>

datatype jtok =
    TName string | TStr string | TInt nat
  | TPipe | TLParen | TRParen | TEqEq | TDot | TBad

definition is_space :: "char \<Rightarrow> bool" where
  "is_space c = (c = CHR '' '' \<or> c = CHR 0x09 \<or> c = CHR 0x0A)"

definition is_digit :: "char \<Rightarrow> bool" where
  "is_digit c = (48 \<le> (of_char c :: nat) \<and> (of_char c :: nat) \<le> 57)"

definition is_name_start :: "char \<Rightarrow> bool" where
  "is_name_start c =
     ((65 \<le> (of_char c :: nat) \<and> (of_char c :: nat) \<le> 90)
      \<or> (97 \<le> (of_char c :: nat) \<and> (of_char c :: nat) \<le> 122)
      \<or> c = CHR ''_'')"

definition is_name_char :: "char \<Rightarrow> bool" where
  "is_name_char c = (is_name_start c \<or> is_digit c)"

fun nat_of_digits :: "nat \<Rightarrow> string \<Rightarrow> nat" where
  "nat_of_digits acc [] = acc"
| "nat_of_digits acc (c # s) = nat_of_digits (10 * acc + ((of_char c :: nat) - 48)) s"

text \<open>
  One step of the lexer inside a tag, at the character \<open>c\<close> followed by \<open>s\<close>, and then
  the tokens of a tag, up to its end marker (\<open>}}\<close>, or \<open>%}\<close> for a block), and the text after
  the marker.  The lexer of Jinja2 hands its tokens to the parser one at a time, so a
  character it cannot read comes after the tokens before it: the token \<open>TBad\<close> stands for
  such a character, for the end of the template inside a tag, and for every token outside
  the fragment (escapes in strings, floats, other operators, whitespace control).
\<close>

datatype lex_step = End string | Skip string | Tok jtok string | Bad

definition tag_step :: "bool \<Rightarrow> char \<Rightarrow> string \<Rightarrow> lex_step" where
  "tag_step blk c s =
     (if c = (if blk then CHR ''%'' else CHR ''}'') \<and> prefix ''}'' s then End (tl s)
      else if is_space c then Skip s
      else if is_name_start c then
        Tok (TName (c # takeWhile is_name_char s)) (dropWhile is_name_char s)
      else if is_digit c then
        (let ds = c # takeWhile is_digit s; r0 = dropWhile is_digit s in
         if (c = CHR ''0'' \<and> 1 < length ds)
            \<or> (r0 \<noteq> [] \<and> (is_name_char (hd r0) \<or> hd r0 = CHR ''.''))
         then Bad
         else Tok (TInt (nat_of_digits 0 ds)) r0)
      else if c = CHR 0x22 \<or> c = CHR 0x27 then
        (let body = takeWhile (\<lambda>x. x \<noteq> c) s; r0 = dropWhile (\<lambda>x. x \<noteq> c) s in
         if r0 = [] \<or> CHR 0x5C \<in> set body then Bad
         else Tok (TStr body) (tl r0))
      else if c = CHR ''|'' then Tok TPipe s
      else if c = CHR ''('' then Tok TLParen s
      else if c = CHR '')'' then Tok TRParen s
      else if c = CHR ''.'' then Tok TDot s
      else if c = CHR ''='' \<and> prefix ''='' s then Tok TEqEq (tl s)
      else Bad)"

function lex_tag :: "bool \<Rightarrow> string \<Rightarrow> jtok list \<times> string" where
  "lex_tag blk [] = ([TBad], [])"
| "lex_tag blk (c # s) =
     (case tag_step blk c s of
        End r \<Rightarrow> ([], r)
      | Skip r \<Rightarrow> lex_tag blk r
      | Tok t r \<Rightarrow> (case lex_tag blk r of (ts, r') \<Rightarrow> (t # ts, r'))
      | Bad \<Rightarrow> ([TBad], []))"
  by pat_completeness auto
termination
proof -
  have step: "length r \<le> length s"
    if "tag_step blk c s = Skip r \<or> tag_step blk c s = Tok t r" for blk c s r t
  proof -
    have d: "length (dropWhile P s) \<le> length s" for P
      by (rule length_dropWhile_le)
    have "length (tl (dropWhile P s)) \<le> length s" for P
      using d [of P] by simp
    with that d show ?thesis
      by (auto simp: tag_step_def Let_def split: if_splits)
  qed
  show ?thesis
  proof (relation "measure (\<lambda>(blk, s). length s)", goal_cases)
    case 1
    then show ?case by simp
  next
    case (2 blk c s r)
    then show ?case using step [of blk c s r] by simp
  next
    case (3 blk c s t r)
    then show ?case using step [of blk c s r t] by simp
  qed
qed

declare lex_tag.simps [simp del]

datatype jexpr =
    EName string | EStr string | EInt nat | EBool bool
  | EDefault jexpr jexpr | EEq jexpr jexpr

text \<open>
  Names that are operators, constants or globals of the default environment rather than
  template variables; an expression that uses one is outside the fragment.
\<close>

definition reserved_names :: "string list" where
  "reserved_names =
     [''not'', ''and'', ''or'', ''in'', ''is'', ''if'', ''else'', ''none'', ''None'',
      ''range'', ''dict'', ''lipsum'', ''cycler'', ''joiner'', ''namespace'',
      ''self'', ''super'', ''caller'', ''varargs'', ''kwargs'', ''loop'']"

fun parse_primary :: "jtok \<Rightarrow> error + jexpr" where
  "parse_primary (TName n) =
     (if n \<in> set reserved_names then Inl Unmodelled
      else if n = ''true'' \<or> n = ''True'' then Inr (EBool True)
      else if n = ''false'' \<or> n = ''False'' then Inr (EBool False)
      else Inr (EName n))"
| "parse_primary (TStr s) = Inr (EStr s)"
| "parse_primary (TInt i) = Inr (EInt i)"
| "parse_primary _ = Inl Unmodelled"

text \<open>The filters after an operand: \<open>| default(d)\<close>, any number of times.\<close>

function parse_filters :: "jexpr \<Rightarrow> jtok list \<Rightarrow> error + (jexpr \<times> jtok list)" where
  "parse_filters a ts =
     (if prefix [TPipe] ts then
        (if 5 \<le> length ts \<and> ts ! 1 = TName ''default'' \<and> ts ! 2 = TLParen \<and> ts ! 4 = TRParen
         then (case parse_primary (ts ! 3) of
                 Inl x \<Rightarrow> Inl x
               | Inr d \<Rightarrow> parse_filters (EDefault a d) (drop 5 ts))
         else Inl Unmodelled)
      else Inr (a, ts))"
  by pat_completeness auto
termination
  by (relation "measure (\<lambda>(a, ts). length ts)") auto

declare parse_filters.simps [simp del]

text \<open>
  What may follow a complete expression.  The end of the tag is fine.  A string or an
  integer literal is a syntax error (\<open>expected token 'end of print statement'\<close>), unless
  the expression is itself a string literal followed by a string, which Jinja2
  concatenates.  Anything else may be an operator.
\<close>

definition end_of_tag :: "jexpr \<Rightarrow> jtok list \<Rightarrow> error + unit" where
  "end_of_tag a ts =
     (case ts of
        [] \<Rightarrow> Inr ()
      | t # r \<Rightarrow>
          (case t of
             TStr s' \<Rightarrow> (case a of EStr s \<Rightarrow> Inl Unmodelled | _ \<Rightarrow> Inl TemplateSyntaxError)
           | TInt i \<Rightarrow> Inl TemplateSyntaxError
           | _ \<Rightarrow> Inl Unmodelled))"

definition parse_operand :: "jtok list \<Rightarrow> error + (jexpr \<times> jtok list)" where
  "parse_operand ts =
     (case ts of
        [] \<Rightarrow> Inl TemplateSyntaxError
      | t # r \<Rightarrow> (case parse_primary t of Inl x \<Rightarrow> Inl x | Inr a \<Rightarrow> parse_filters a r))"

datatype jitem = IData string | IPrint jexpr | IIf jexpr | IEndif | IFail error

definition parse_print :: "jtok list \<Rightarrow> jitem" where
  "parse_print ts =
     (case parse_operand ts of
        Inl x \<Rightarrow> IFail x
      | Inr (a, r) \<Rightarrow> (case end_of_tag a r of Inl x \<Rightarrow> IFail x | Inr u \<Rightarrow> IPrint a))"

definition parse_block :: "jtok list \<Rightarrow> jitem" where
  "parse_block ts =
     (if ts = [TName ''endif''] then IEndif
      else (case ts of
              TName kw # r \<Rightarrow>
                (if kw = ''if''
                 then (case parse_operand r of
                         Inl x \<Rightarrow> IFail x
                       | Inr (a, r1) \<Rightarrow>
                      (case r1 of
                         TEqEq # r2 \<Rightarrow>
                           (case parse_operand r2 of
                              Inl x \<Rightarrow> IFail x
                            | Inr (b, r3) \<Rightarrow>
                           (case end_of_tag b r3 of
                              Inl x \<Rightarrow> IFail x
                            | Inr u \<Rightarrow> IIf (EEq a b)))
                       | _ \<Rightarrow> (case end_of_tag a r1 of Inl x \<Rightarrow> IFail x | Inr u \<Rightarrow> IIf a)))
                 else IFail Unmodelled)
            | _ \<Rightarrow> IFail Unmodelled))"

text \<open>
  The items of a template, in order.  Text runs to the next \<open>{{\<close> or \<open>{%\<close>; a begin marker
  with a whitespace-control sign, a comment and a carriage return are outside the
  fragment.
\<close>

function lex_root :: "string \<Rightarrow> string \<Rightarrow> jitem list" where
  "lex_root acc [] = [IData (rev acc)]"
| "lex_root acc (c # s) =
     (if c = CHR ''{'' \<and> (prefix ''{'' s \<or> prefix ''%'' s) then
        (if prefix ''-'' (tl s) \<or> prefix ''+'' (tl s) then [IData (rev acc), IFail Unmodelled]
         else (case lex_tag (prefix ''%'' s) (tl s) of
                 (ts, r) \<Rightarrow>
                   IData (rev acc)
                   # (if prefix ''%'' s then parse_block ts else parse_print ts)
                   # lex_root [] r))
      else if (c = CHR ''{'' \<and> prefix ''#'' s) \<or> c = CHR 0x0D
        then [IData (rev acc), IFail Unmodelled]
      else lex_root (c # acc) s)"
  by pat_completeness auto
termination
proof -
  have step: "length r \<le> length s"
    if "tag_step blk c s = End r \<or> tag_step blk c s = Skip r \<or> tag_step blk c s = Tok t r"
    for blk c s r t
  proof -
    have d: "length (dropWhile P s) \<le> length s" for P
      by (rule length_dropWhile_le)
    have "length (tl (dropWhile P s)) \<le> length s" for P
      using d [of P] by simp
    with that d show ?thesis
      by (auto simp: tag_step_def Let_def split: if_splits)
  qed
  have len: "length (snd (lex_tag blk s)) \<le> length s" for blk s
  proof (induction blk s rule: lex_tag.induct)
    case (1 blk)
    then show ?case by (simp add: lex_tag.simps)
  next
    case (2 blk c s)
    show ?case
    proof (cases "tag_step blk c s")
      case (End r)
      then show ?thesis using step [of blk c s r] by (simp add: lex_tag.simps)
    next
      case (Skip r)
      then show ?thesis
        using step [of blk c s r] 2(1) [of r] by (simp add: lex_tag.simps)
    next
      case (Tok t r)
      then show ?thesis
        using step [of blk c s r t] 2(2) [of t r]
        by (auto simp: lex_tag.simps split: prod.splits)
    next
      case Bad
      then show ?thesis by (simp add: lex_tag.simps)
    qed
  qed
  show ?thesis
  proof (relation "measure (\<lambda>(acc, s). length s)", simp_all, goal_cases)
    case (1 s ts r)
    have "length (snd (lex_tag (prefix ''%'' s) (tl s))) \<le> length (tl s)"
      by (rule len)
    also have "\<dots> \<le> length s" by simp
    finally show ?case using 1(3) [symmetric] by simp
  qed
qed

declare lex_root.simps [simp del]

text \<open>The value of an expression; an unbound name is \<open>Undefined\<close>.\<close>

fun jeq :: "jval \<Rightarrow> jval \<Rightarrow> bool" where
  "jeq JUndefined JUndefined = True"
| "jeq (JStr s) (JStr t) = (s = t)"
| "jeq (JInt i) (JInt j) = (i = j)"
| "jeq (JBool a) (JBool b) = (a = b)"
| "jeq (JInt i) (JBool b) = (i = (if b then 1 else 0))"
| "jeq (JBool b) (JInt i) = (i = (if b then 1 else 0))"
| "jeq _ _ = False"

fun eval :: "variables \<Rightarrow> jexpr \<Rightarrow> jval" where
  "eval vs (EName n) = (case vs n of None \<Rightarrow> JUndefined | Some v \<Rightarrow> v)"
| "eval vs (EStr s) = JStr s"
| "eval vs (EInt i) = JInt (int i)"
| "eval vs (EBool b) = JBool b"
| "eval vs (EDefault a d) = (case eval vs a of JUndefined \<Rightarrow> eval vs d | v \<Rightarrow> v)"
| "eval vs (EEq a b) = JBool (jeq (eval vs a) (eval vs b))"

fun jtruthy :: "jval \<Rightarrow> bool" where
  "jtruthy JUndefined = False"
| "jtruthy (JStr s) = (s \<noteq> [])"
| "jtruthy (JInt i) = (i \<noteq> 0)"
| "jtruthy (JBool b) = b"

function string_of_nat :: "nat \<Rightarrow> string" where
  "string_of_nat n =
     (if n < 10 then [char_of (48 + n)]
      else string_of_nat (n div 10) @ [char_of (48 + n mod 10)])"
  by pat_completeness auto
termination
  by (relation "measure id") auto

declare string_of_nat.simps [simp del]

text \<open>\<open>str(v)\<close> as a print statement writes it; \<open>Undefined\<close> prints as the empty string.\<close>

fun jstr :: "jval \<Rightarrow> string" where
  "jstr JUndefined = []"
| "jstr (JStr s) = s"
| "jstr (JInt i) = (if i < 0 then ''-'' @ string_of_nat (nat (- i)) else string_of_nat (nat i))"
| "jstr (JBool b) = (if b then ''True'' else ''False'')"

text \<open>
  Rendering the items under the stack of the conditions of the open \<open>if\<close> blocks.  The
  template is parsed whole before anything is rendered, so an error in any item, an
  \<open>endif\<close> without \<open>if\<close> or an \<open>if\<close> left open fails the template.
\<close>

fun render_items :: "variables \<Rightarrow> bool list \<Rightarrow> jitem list \<Rightarrow> error + string" where
  "render_items vs st [] = (if st = [] then Inr [] else Inl TemplateSyntaxError)"
| "render_items vs st (IData s # r) =
     (case render_items vs st r of
        Inl x \<Rightarrow> Inl x
      | Inr t \<Rightarrow> Inr ((if list_all id st then s else []) @ t))"
| "render_items vs st (IPrint a # r) =
     (case render_items vs st r of
        Inl x \<Rightarrow> Inl x
      | Inr t \<Rightarrow> Inr ((if list_all id st then jstr (eval vs a) else []) @ t))"
| "render_items vs st (IIf a # r) = render_items vs (jtruthy (eval vs a) # st) r"
| "render_items vs st (IEndif # r) =
     (case st of [] \<Rightarrow> Inl TemplateSyntaxError | b # st' \<Rightarrow> render_items vs st' r)"
| "render_items vs st (IFail x # r) = Inl x"

text \<open>The lexer drops one newline at the end of the source (\<open>keep_trailing_newline\<close> is off).\<close>

definition strip_newline :: "string \<Rightarrow> string" where
  "strip_newline src = (if src \<noteq> [] \<and> last src = CHR 0x0A then butlast src else src)"

definition jinja_render :: "string \<Rightarrow> variables \<Rightarrow> error + string" where
  "jinja_render content vs = render_items vs [] (lex_root [] (strip_newline content))"

section \<open>Template engine\<close>

text \<open>The template dictionary: type, name and the files in the order they were inserted.\<close>

record template =
  ttype :: string
  tname :: yaml
  files :: "(string \<times> string) list"

text \<open>The text of a triple-quoted literal, line by line; every line ends with a newline.\<close>

definition unlines :: "string list \<Rightarrow> string" where
  "unlines ls = concat (map (\<lambda>l. l @ [CHR 0x0A]) ls)"

definition chart_template :: string where
  \<open>chart_template = unlines
    [''apiVersion: v2'',
     ''name: {{ app_name }}'',
     ''description: A Helm chart for {{ app_name }}'',
     ''type: application'',
     ''version: {{ chart_version | default("0.1.0") }}'',
     ''appVersion: {{ app_version | default("1.0.0") }}'']\<close>

definition values_template :: string where
  \<open>values_template = unlines
    [''# Default values for {{ app_name }}'',
     ''replicaCount: {{ replica_count | default(1) }}'',
     '''',
     ''image:'',
     ''  repository: {{ image_repository | default("nginx") }}'',
     ''  pullPolicy: {{ pull_policy | default("IfNotPresent") }}'',
     ''  tag: {{ image_tag | default("latest") }}'',
     '''',
     ''service:'',
     ''  type: {{ service_type | default("ClusterIP") }}'',
     ''  port: {{ service_port | default(80) }}'',
     '''',
     ''ingress:'',
     ''  enabled: {{ ingress_enabled | default(false) }}'',
     ''  className: {{ ingress_class | default("nginx") }}'',
     ''  hosts:'',
     ''    - host: {{ app_name }}.local'',
     ''      paths:'',
     ''        - path: /'',
     ''          pathType: Prefix'',
     '''',
     ''resources:'',
     ''  limits:'',
     ''    cpu: {{ cpu_limit | default("100m") }}'',
     ''    memory: {{ memory_limit | default("128Mi") }}'',
     ''  requests:'',
     ''    cpu: {{ cpu_request | default("100m") }}'',
     ''    memory: {{ memory_request | default("128Mi") }}'']\<close>

definition deployment_template :: string where
  \<open>deployment_template = unlines
    [''apiVersion: apps/v1'',
     ''kind: Deployment'',
     ''metadata:'',
     ''  name: {{ include "{{ app_name }}.fullname" . }}'',
     ''  labels:'',
     ''    {{- include "{{ app_name }}.labels" . | nindent 4 }}'',
     ''spec:'',
     ''  replicas: {{ .Values.replicaCount }}'',
     ''  selector:'',
     ''    matchLabels:'',
     ''      {{- include "{{ app_name }}.selectorLabels" . | nindent 6 }}'',
     ''  template:'',
     ''    metadata:'',
     ''      labels:'',
     ''        {{- include "{{ app_name }}.selectorLabels" . | nindent 8 }}'',
     ''    spec:'',
     ''      containers:'',
     ''        - name: {{ .Chart.Name }}'',
     ''          image: "{{ .Values.image.repository }}:{{ .Values.image.tag | default .Chart.AppVersion }}"'',
     ''          imagePullPolicy: {{ .Values.image.pullPolicy }}'',
     ''          ports:'',
     ''            - name: http'',
     ''              containerPort: {{ .Values.service.port }}'',
     ''              protocol: TCP'',
     ''          resources:'',
     ''            {{- toYaml .Values.resources | nindent 12 }}'']\<close>

definition app_template :: string where
  \<open>app_template = unlines
    [''apiVersion: argoproj.io/v1alpha1'',
     ''kind: Application'',
     ''metadata:'',
     ''  name: {{ app_name }}'',
     ''  namespace: {{ argocd_namespace | default("argocd") }}'',
     ''  finalizers:'',
     ''    - resources-finalizer.argocd.argoproj.io'',
     ''spec:'',
     ''  project: {{ project | default("default") }}'',
     ''  source:'',
     ''    repoURL: {{ repo_url }}'',
     ''    targetRevision: {{ target_revision | default("HEAD") }}'',
     ''    path: {{ source_path }}'',
     ''    {% if source_type == "helm" %}'',
     ''    helm:'',
     ''      releaseName: {{ app_name }}'',
     ''      valueFiles:'',
     ''        - values.yaml'',
     ''    {% endif %}'',
     ''  destination:'',
     ''    server: {{ dest_server | default("https://kubernetes.default.svc") }}'',
     ''    namespace: {{ dest_namespace | default(app_name) }}'',
     ''  syncPolicy:'',
     ''    automated:'',
     ''      prune: {{ auto_prune | default(true) }}'',
     ''      selfHeal: {{ self_heal | default(true) }}'',
     ''    syncOptions:'',
     ''      - CreateNamespace=true'']\<close>

text \<open>\<^verbatim>\<open>p / v\<close> for a value \<open>v\<close> from a dictionary: only a string can be joined to a path.\<close>

definition pjoin_yaml :: "path \<Rightarrow> yaml \<Rightarrow> error + path" where
  "pjoin_yaml p v = (case v of YStr s \<Rightarrow> Inr (pjoin p s) | _ \<Rightarrow> Inl TypeError)"

text \<open>
  \<open>str(v)\<close> as an f-string writes it, for the scalars; the \<open>repr\<close> of a list, a mapping or
  another scalar is not modelled.
\<close>

definition py_format :: "yaml \<Rightarrow> error + string" where
  "py_format v =
     (case v of
        YStr s \<Rightarrow> Inr s
      | YInt i \<Rightarrow> Inr (jstr (JInt i))
      | YBool b \<Rightarrow> Inr (jstr (JBool b))
      | YNull \<Rightarrow> Inr ''None''
      | _ \<Rightarrow> Inl Unmodelled)"

text \<open>
  The loop of \<^verbatim>\<open>_create_helm_template\<close> that saves the files under \<open>helm_dir\<close>.  A
  computation that writes returns the filesystem it leaves behind, also when it raises.
\<close>

fun save_files ::
  "path \<Rightarrow> (string \<times> string) list \<Rightarrow> filesystem \<Rightarrow> (error + unit) \<times> filesystem" where
  "save_files helm_dir [] fs = (Inr (), fs)"
| "save_files helm_dir ((file_path, content) # rest) fs =
     (let full_path = pjoin helm_dir file_path in
      case mkdir_parents fs (parent full_path) of
        Inl x \<Rightarrow> (Inl x, fs)
      | Inr fs1 \<Rightarrow>
     (case write_text fs1 full_path content of
        Inl x \<Rightarrow> (Inl x, fs1)
      | Inr fs2 \<Rightarrow> save_files helm_dir rest fs2))"

definition create_helm_template ::
  "pattern \<Rightarrow> path option \<Rightarrow> filesystem \<Rightarrow> (error + template) \<times> filesystem" where
  "create_helm_template pat output_dir fs =
     (let template_data =
            \<lparr> ttype = ''helm'', tname = pname pat,
              files = [(''Chart.yaml'', chart_template),
                       (''values.yaml'', values_template),
                       (''templates/deployment.yaml'', deployment_template)] \<rparr>
      in case output_dir of
           None \<Rightarrow> (Inr template_data, fs)
         | Some out \<Rightarrow>
        (case pjoin_yaml (pjoin out ''helm'') (pname pat) of
           Inl x \<Rightarrow> (Inl x, fs)
         | Inr helm_dir \<Rightarrow>
        (case mkdir_parents fs helm_dir of
           Inl x \<Rightarrow> (Inl x, fs)
         | Inr fs1 \<Rightarrow>
        (case save_files helm_dir (files template_data) fs1 of
           (Inl x, fs2) \<Rightarrow> (Inl x, fs2)
         | (Inr u, fs2) \<Rightarrow> (Inr template_data, fs2)))))"

definition create_argocd_template ::
  "pattern \<Rightarrow> path option \<Rightarrow> filesystem \<Rightarrow> (error + template) \<times> filesystem" where
  "create_argocd_template pat output_dir fs =
     (let template_data =
            \<lparr> ttype = ''argocd'', tname = pname pat,
              files = [(''application.yaml'', app_template)] \<rparr>
      in case output_dir of
           None \<Rightarrow> (Inr template_data, fs)
         | Some out \<Rightarrow>
        (let argocd_dir = pjoin out ''argocd'' in
         case mkdir_parents fs argocd_dir of
           Inl x \<Rightarrow> (Inl x, fs)
         | Inr fs1 \<Rightarrow>
        (case py_format (pname pat) of
           Inl x \<Rightarrow> (Inl x, fs1)
         | Inr nm \<Rightarrow>
        (case write_text fs1 (pjoin argocd_dir (nm @ ''-application.yaml'')) app_template of
           Inl x \<Rightarrow> (Inl x, fs1)
         | Inr fs2 \<Rightarrow> (Inr template_data, fs2)))))"

text \<open>The loop of \<^verbatim>\<open>TemplateEngine.create_templates\<close>.\<close>

fun create_templates_loop ::
  "pattern list \<Rightarrow> path option \<Rightarrow> template list \<Rightarrow> filesystem
   \<Rightarrow> (error + template list) \<times> filesystem" where
  "create_templates_loop [] output_dir templates fs = (Inr templates, fs)"
| "create_templates_loop (pat # rest) output_dir templates fs =
     (if ptype pat = ''helm''
      then (case create_helm_template pat output_dir fs of
              (Inl x, fs1) \<Rightarrow> (Inl x, fs1)
            | (Inr t, fs1) \<Rightarrow> create_templates_loop rest output_dir (templates @ [t]) fs1)
      else if ptype pat = ''argocd''
      then (case create_argocd_template pat output_dir fs of
              (Inl x, fs1) \<Rightarrow> (Inl x, fs1)
            | (Inr t, fs1) \<Rightarrow> create_templates_loop rest output_dir (templates @ [t]) fs1)
      else create_templates_loop rest output_dir templates fs)"

definition create_templates ::
  "pattern list \<Rightarrow> path option \<Rightarrow> filesystem \<Rightarrow> (error + template list) \<times> filesystem" where
  "create_templates patterns output_dir fs = create_templates_loop patterns output_dir [] fs"


section \<open>Applicator\<close>

record apply_result =
  pattern_id :: string
  status :: string
  message :: string

text \<open>\<^verbatim>\<open>PatternApplicator._extract_variables_for_repo\<close>\<close>

definition extract_variables_for_repo :: "env \<Rightarrow> filesystem \<Rightarrow> path \<Rightarrow> error + variables" where
  "extract_variables_for_repo e fs repo_path =
     (let repo_name = path_name repo_path in
      case get_remote_url e fs repo_path of
        Inl x \<Rightarrow> Inl x
      | Inr url \<Rightarrow>
     (let repo_url = (case url of
                        Some u \<Rightarrow> if u \<noteq> [] then u else ''https://github.com/org/'' @ repo_name
                      | None \<Rightarrow> ''https://github.com/org/'' @ repo_name)
      in Inr [''app_name'' \<mapsto> JStr repo_name,
              ''repo_url'' \<mapsto> JStr repo_url,
              ''repo_name'' \<mapsto> JStr repo_name,
              ''chart_version'' \<mapsto> JStr ''0.1.0'',
              ''app_version'' \<mapsto> JStr ''1.0.0'',
              ''image_repository'' \<mapsto> JStr (''myorg/'' @ repo_name),
              ''image_tag'' \<mapsto> JStr ''latest'',
              ''source_path'' \<mapsto> JStr (''deployments/helm/'' @ repo_name),
              ''dest_namespace'' \<mapsto> JStr repo_name,
              ''source_type'' \<mapsto> JStr ''helm'']))"

subsection \<open>Applying templates held in memory\<close>

text \<open>The loop of \<^verbatim>\<open>_apply_helm_template\<close> over \<^verbatim>\<open>template['files'].items()\<close>.\<close>

fun render_files ::
  "env \<Rightarrow> path \<Rightarrow> (string \<times> string) list \<Rightarrow> variables \<Rightarrow> filesystem
   \<Rightarrow> (error + unit) \<times> filesystem" where
  "render_files e target_path [] vs fs = (Inr (), fs)"
| "render_files e target_path ((file_path, content) # rest) vs fs =
     (let full_path = pjoin target_path file_path in
      case mkdir_parents fs (parent full_path) of
        Inl x \<Rightarrow> (Inl x, fs)
      | Inr fs1 \<Rightarrow>
     (case render e content vs of
        Inl x \<Rightarrow> (Inl x, fs1)
      | Inr rendered \<Rightarrow>
     (case write_text fs1 full_path rendered of
        Inl x \<Rightarrow> (Inl x, fs1)
      | Inr fs2 \<Rightarrow> render_files e target_path rest vs fs2)))"

definition apply_helm_template ::
  "env \<Rightarrow> template \<Rightarrow> path \<Rightarrow> variables \<Rightarrow> bool \<Rightarrow> filesystem
   \<Rightarrow> (error + apply_result) \<times> filesystem" where
  "apply_helm_template e t target_repo vs dry_run fs =
     (case tname t of
        YStr chart_name \<Rightarrow>
          (let target_path = pjoin (pjoin (pjoin target_repo ''deployments'') ''helm'') chart_name in
           if dry_run
           then (Inr \<lparr> pattern_id = ''helm/'' @ chart_name, status = ''would_apply'',
                       message = ''Would create Helm chart at '' @ path_str target_path \<rparr>, fs)
           else (case render_files e target_path (files t) vs fs of
                   (Inl x, fs1) \<Rightarrow> (Inl x, fs1)
                 | (Inr u, fs1) \<Rightarrow>
                     (Inr \<lparr> pattern_id = ''helm/'' @ chart_name, status = ''applied'',
                            message = ''Created Helm chart at '' @ path_str target_path \<rparr>, fs1)))
      | _ \<Rightarrow> (Inl TypeError, fs))"

definition apply_argocd_template ::
  "env \<Rightarrow> template \<Rightarrow> path \<Rightarrow> variables \<Rightarrow> bool \<Rightarrow> filesystem
   \<Rightarrow> (error + apply_result) \<times> filesystem" where
  "apply_argocd_template e t target_repo vs dry_run fs =
     (case py_format (tname t) of
        Inl x \<Rightarrow> (Inl x, fs)
      | Inr app_name \<Rightarrow>
     (let target_path = pjoin (pjoin (pjoin target_repo ''deployments'') ''argocd'')
                          (app_name @ ''-application.yaml'') in
      if dry_run
      then (Inr \<lparr> pattern_id = ''argocd/'' @ app_name, status = ''would_apply'',
                  message = ''Would create ArgoCD app at '' @ path_str target_path \<rparr>, fs)
      else (case mkdir_parents fs (parent target_path) of
              Inl x \<Rightarrow> (Inl x, fs)
            | Inr fs1 \<Rightarrow>
           (case map_of (files t) ''application.yaml'' of
              None \<Rightarrow> (Inl KeyError, fs1)
            | Some content \<Rightarrow>
           (case render e content vs of
              Inl x \<Rightarrow> (Inl x, fs1)
            | Inr rendered \<Rightarrow>
           (case write_text fs1 target_path rendered of
              Inl x \<Rightarrow> (Inl x, fs1)
            | Inr fs2 \<Rightarrow>
                (Inr \<lparr> pattern_id = ''argocd/'' @ app_name, status = ''applied'',
                       message = ''Created ArgoCD application at '' @ path_str target_path \<rparr>,
                 fs2)))))))"

text \<open>The loop of \<^verbatim>\<open>apply_patterns_direct\<close>.\<close>

fun apply_direct_loop ::
  "env \<Rightarrow> template list \<Rightarrow> path \<Rightarrow> bool \<Rightarrow> apply_result list \<Rightarrow> filesystem
   \<Rightarrow> (error + apply_result list) \<times> filesystem" where
  "apply_direct_loop e [] target_repo dry_run results fs = (Inr results, fs)"
| "apply_direct_loop e (t # rest) target_repo dry_run results fs =
     (case extract_variables_for_repo e fs target_repo of
        Inl x \<Rightarrow> (Inl x, fs)
      | Inr vs \<Rightarrow>
     (if ttype t = ''helm''
      then (case apply_helm_template e t target_repo vs dry_run fs of
              (Inl x, fs1) \<Rightarrow> (Inl x, fs1)
            | (Inr r, fs1) \<Rightarrow> apply_direct_loop e rest target_repo dry_run (results @ [r]) fs1)
      else if ttype t = ''argocd''
      then (case apply_argocd_template e t target_repo vs dry_run fs of
              (Inl x, fs1) \<Rightarrow> (Inl x, fs1)
            | (Inr r, fs1) \<Rightarrow> apply_direct_loop e rest target_repo dry_run (results @ [r]) fs1)
      else apply_direct_loop e rest target_repo dry_run results fs))"

definition apply_patterns_direct ::
  "env \<Rightarrow> template list \<Rightarrow> path \<Rightarrow> bool \<Rightarrow> filesystem
   \<Rightarrow> (error + apply_result list) \<times> filesystem" where
  "apply_patterns_direct e templates target_repo dry_run fs =
     apply_direct_loop e templates target_repo dry_run [] fs"

subsection \<open>Applying templates from a directory\<close>

text \<open>
  The loop of \<^verbatim>\<open>_apply_helm_chart\<close> over \<^verbatim>\<open>template_dir.rglob('*')\<close>.  The entries are
  those the directory has when the loop starts.
\<close>

fun copy_chart_files ::
  "env \<Rightarrow> path \<Rightarrow> path \<Rightarrow> path \<Rightarrow> path list \<Rightarrow> filesystem \<Rightarrow> (error + unit) \<times> filesystem"
where
  "copy_chart_files e template_dir target_repo target_path [] fs = (Inr (), fs)"
| "copy_chart_files e template_dir target_repo target_path (file_path # rest) fs =
     (if is_file fs file_path
      then (let relative_path = drop (length template_dir) file_path;
                target_file = target_path @ relative_path in
            case mkdir_parents fs (parent target_file) of
              Inl x \<Rightarrow> (Inl x, fs)
            | Inr fs1 \<Rightarrow>
           (case read_text fs1 file_path of
              Inl x \<Rightarrow> (Inl x, fs1)
            | Inr content \<Rightarrow>
           (if path_suffix file_path \<in> {''.yaml'', ''.yml'', ''.j2''}
            then (case extract_variables_for_repo e fs1 target_repo of
                    Inl x \<Rightarrow> (Inl x, fs1)
                  | Inr vs \<Rightarrow>
                 (case render e content vs of
                    Inl x \<Rightarrow> (Inl x, fs1)
                  | Inr rendered \<Rightarrow>
                 (case write_text fs1 target_file rendered of
                    Inl x \<Rightarrow> (Inl x, fs1)
                  | Inr fs2 \<Rightarrow>
                      copy_chart_files e template_dir target_repo target_path rest fs2)))
            else (case write_text fs1 target_file content of
                    Inl x \<Rightarrow> (Inl x, fs1)
                  | Inr fs2 \<Rightarrow>
                      copy_chart_files e template_dir target_repo target_path rest fs2))))
      else copy_chart_files e template_dir target_repo target_path rest fs)"

definition apply_helm_chart ::
  "env \<Rightarrow> path \<Rightarrow> path \<Rightarrow> pattern option \<Rightarrow> bool \<Rightarrow> bool \<Rightarrow> filesystem
   \<Rightarrow> (error + apply_result) \<times> filesystem" where
  "apply_helm_chart e template_dir target_repo existing dry_run force fs =
     (let chart_name = path_name template_dir in
      if existing \<noteq> None \<and> \<not> force
      then (Inr \<lparr> pattern_id = ''helm/'' @ chart_name, status = ''skipped'',
                  message = ''Helm chart already exists'' \<rparr>, fs)
      else
     (let target_path = pjoin (pjoin (pjoin target_repo ''deployments'') ''helm'') chart_name in
      if dry_run
      then (Inr \<lparr> pattern_id = ''helm/'' @ chart_name, status = ''would_apply'',
                  message = ''Would create Helm chart at '' @ path_str target_path \<rparr>, fs)
      else (case mkdir_parents fs target_path of
              Inl x \<Rightarrow> (Inl x, fs)
            | Inr fs1 \<Rightarrow>
           (case copy_chart_files e template_dir target_repo target_path
                   (rglob fs1 template_dir match_any) fs1 of
              (Inl x, fs2) \<Rightarrow> (Inl x, fs2)
            | (Inr u, fs2) \<Rightarrow>
                (Inr \<lparr> pattern_id = ''helm/'' @ chart_name, status = ''applied'',
                       message = ''Created Helm chart at '' @ path_str target_path \<rparr>, fs2)))))"

definition apply_argocd_app ::
  "env \<Rightarrow> path \<Rightarrow> path \<Rightarrow> pattern option \<Rightarrow> bool \<Rightarrow> bool \<Rightarrow> filesystem
   \<Rightarrow> (error + apply_result) \<times> filesystem" where
  "apply_argocd_app e template_file target_repo existing dry_run force fs =
     (let app_name = str_replace ''-application'' [] (path_stem template_file) in
      if existing \<noteq> None \<and> \<not> force
      then (Inr \<lparr> pattern_id = ''argocd/'' @ app_name, status = ''skipped'',
                  message = ''ArgoCD application already exists'' \<rparr>, fs)
      else
     (let target_path = pjoin (pjoin (pjoin target_repo ''deployments'') ''argocd'')
                          (path_name template_file) in
      if dry_run
      then (Inr \<lparr> pattern_id = ''argocd/'' @ app_name, status = ''would_apply'',
                  message = ''Would create ArgoCD app at '' @ path_str target_path \<rparr>, fs)
      else (case mkdir_parents fs (parent target_path) of
              Inl x \<Rightarrow> (Inl x, fs)
            | Inr fs1 \<Rightarrow>
           (case read_text fs1 template_file of
              Inl x \<Rightarrow> (Inl x, fs1)
            | Inr content \<Rightarrow>
           (case extract_variables_for_repo e fs1 target_repo of
              Inl x \<Rightarrow> (Inl x, fs1)
            | Inr vs \<Rightarrow>
           (case render e content vs of
              Inl x \<Rightarrow> (Inl x, fs1)
            | Inr rendered \<Rightarrow>
           (case write_text fs1 target_path rendered of
              Inl x \<Rightarrow> (Inl x, fs1)
            | Inr fs2 \<Rightarrow>
                (Inr \<lparr> pattern_id = ''argocd/'' @ app_name, status = ''applied'',
                       message = ''Created ArgoCD application at '' @ path_str target_path \<rparr>,
                 fs2))))))))"

text \<open>
  \<^verbatim>\<open>existing_types.get(ty)\<close> for the dictionary \<^verbatim>\<open>{p['type']: p for p in existing_patterns}\<close>:
  the last pattern of that type.
\<close>

definition existing_type :: "pattern list \<Rightarrow> string \<Rightarrow> pattern option" where
  "existing_type existing_patterns ty =
     (case filter (\<lambda>p. ptype p = ty) existing_patterns of
        [] \<Rightarrow> None
      | p # ps \<Rightarrow> Some (last (p # ps)))"

text \<open>The inner loop of \<^verbatim>\<open>apply_patterns\<close>, over the entries of one type directory.\<close>

fun apply_entries_loop ::
  "env \<Rightarrow> path list \<Rightarrow> path \<Rightarrow> pattern list \<Rightarrow> bool \<Rightarrow> bool \<Rightarrow> apply_result list
   \<Rightarrow> filesystem \<Rightarrow> (error + apply_result list) \<times> filesystem" where
  "apply_entries_loop e [] target_repo existing dry_run force results fs = (Inr results, fs)"
| "apply_entries_loop e (template_path # rest) target_repo existing dry_run force results fs =
     (if is_dir fs template_path
      then (case apply_helm_chart e template_path target_repo (existing_type existing ''helm'')
                   dry_run force fs of
              (Inl x, fs1) \<Rightarrow> (Inl x, fs1)
            | (Inr r, fs1) \<Rightarrow>
                apply_entries_loop e rest target_repo existing dry_run force (results @ [r]) fs1)
      else if path_suffix template_path \<in> {''.yaml'', ''.yml''}
      then (case apply_argocd_app e template_path target_repo (existing_type existing ''argocd'')
                   dry_run force fs of
              (Inl x, fs1) \<Rightarrow> (Inl x, fs1)
            | (Inr r, fs1) \<Rightarrow>
                apply_entries_loop e rest target_repo existing dry_run force (results @ [r]) fs1)
      else apply_entries_loop e rest target_repo existing dry_run force results fs)"

text \<open>The outer loop, over the template types.\<close>

fun apply_types_loop ::
  "env \<Rightarrow> string list \<Rightarrow> path \<Rightarrow> path \<Rightarrow> pattern list \<Rightarrow> bool \<Rightarrow> bool \<Rightarrow> apply_result list
   \<Rightarrow> filesystem \<Rightarrow> (error + apply_result list) \<times> filesystem" where
  "apply_types_loop e [] template_dir target_repo existing dry_run force results fs =
     (Inr results, fs)"
| "apply_types_loop e (template_type # rest) template_dir target_repo existing dry_run force
       results fs =
     (let type_dir = pjoin template_dir template_type in
      if \<not> exists fs type_dir
      then apply_types_loop e rest template_dir target_repo existing dry_run force results fs
      else (case iterdir fs type_dir of
              Inl x \<Rightarrow> (Inl x, fs)
            | Inr entries \<Rightarrow>
           (case apply_entries_loop e entries target_repo existing dry_run force results fs of
              (Inl x, fs1) \<Rightarrow> (Inl x, fs1)
            | (Inr results1, fs1) \<Rightarrow>
                apply_types_loop e rest template_dir target_repo existing dry_run force
                  results1 fs1)))"

text \<open>
  \<^verbatim>\<open>PatternApplicator.apply_patterns\<close>.  The lines the scan of the target prints are not
  part of the result.
\<close>

definition apply_patterns ::
  "env \<Rightarrow> path \<Rightarrow> path \<Rightarrow> bool \<Rightarrow> bool \<Rightarrow> filesystem
   \<Rightarrow> (error + apply_result list) \<times> filesystem" where
  "apply_patterns e template_dir target_repo dry_run force fs =
     (let existing_patterns = fst (scan_repository e fs target_repo) in
      apply_types_loop e [''helm'', ''argocd''] template_dir target_repo existing_patterns
        dry_run force [] fs)"

section \<open>The replicate command\<close>

text \<open>
  \<^verbatim>\<open>cli.replicate\<close>: \<open>None\<close> when the source has no pattern, else the numbers of applied
  and of skipped results that the summary line prints.
\<close>

definition replicate_cmd ::
  "env \<Rightarrow> path \<Rightarrow> path \<Rightarrow> bool \<Rightarrow> filesystem \<Rightarrow> (error + (nat \<times> nat) option) \<times> filesystem"
where
  "replicate_cmd e source_repo target_repo dry_run fs =
     (let patterns = fst (scan_repository e fs source_repo) in
      if patterns = [] then (Inr None, fs)
      else (case create_templates patterns None fs of
              (Inl x, fs1) \<Rightarrow> (Inl x, fs1)
            | (Inr templates, fs1) \<Rightarrow>
           (case apply_patterns_direct e templates target_repo dry_run fs1 of
              (Inl x, fs2) \<Rightarrow> (Inl x, fs2)
            | (Inr results, fs2) \<Rightarrow>
                (Inr (Some (length (filter (\<lambda>r. status r = ''applied'') results),
                            length (filter (\<lambda>r. status r = ''skipped'') results))), fs2))))"

section \<open>Concrete inputs\<close>

text \<open>
  A loader given by a finite table of file texts and the documents they parse to; every
  other text is malformed.
\<close>

definition load_table :: "(string \<times> yaml) list \<Rightarrow> string \<Rightarrow> error + yaml" where
  "load_table tbl content =
     (case map_of tbl content of None \<Rightarrow> Inl YAMLError | Some d \<Rightarrow> Inr d)"


text \<open>
  The status a dry run gives a result, from the patterns \<open>existing\<close> found in the target:
  the kind of the result is the part of its identifier before the slash.
\<close>

definition dry_ok :: "pattern list \<Rightarrow> bool \<Rightarrow> apply_result \<Rightarrow> bool" where
  "dry_ok existing force r =
     (status r =
        (if existing_type existing (takeWhile (\<lambda>c. c \<noteq> CHR ''/'') (pattern_id r)) \<noteq> None \<and> \<not> force
         then ''skipped'' else ''would_apply''))"

text \<open>
  A template directory with one chart and one application, and a target repository that
  already holds a chart.
\<close>

definition c1_fs :: filesystem where
  "c1_fs =
     [([''templates''], Dir),
      ([''templates'', ''helm''], Dir),
      ([''templates'', ''helm'', ''demo''], Dir),
      ([''templates'', ''helm'', ''demo'', ''Chart.yaml''], File ''name: {{ app_name }}''),
      ([''templates'', ''argocd''], Dir),
      ([''templates'', ''argocd'', ''demo-application.yaml''], File ''kind: Application''),
      ([''target''], Dir),
      ([''target'', ''charts''], Dir),
      ([''target'', ''charts'', ''old''], Dir),
      ([''target'', ''charts'', ''old'', ''Chart.yaml''], File ''name: old'')]"

definition c1_env :: env where
  "c1_env = \<lparr> safe_load = load_table [(''name: old'', YMap [(''name'', YStr ''old'')])],
              render = jinja_render, git_remotes = (\<lambda>p. None) \<rparr>"











section \<open>Evaluation\<close>

lemmas path_defs = pjoin_def path_parts_def path_name_def parent_def path_str_def
  path_suffix_def path_stem_def
lemmas fs_defs = fs_node_def exists_def is_dir_def is_file_def read_text_def children_def
  iterdir_def glob_def rglob_def match_yaml_def match_application_yaml_def match_any_def
  mkdir_parents_def write_text_def suffix_to_prefix

lemmas scan_defs = scan_repository_def helm_detect_def helm_skipped_def analyze_helm_chart_def
  analyze_helm_chart_try_def argocd_detect_def argocd_paths_def scan_argocd_directory_def
  is_argocd_app_def classify_def analyze_argocd_app_def analyze_argocd_app_try_def
  or_empty_dict_def load_table_def


section \<open>The classifier\<close>

lemma dict_get_Inr: "dict_get d k x = Inr v \<longleftrightarrow> (\<exists>m. d = YMap m \<and> v = (case map_of m k of None \<Rightarrow> x | Some w \<Rightarrow> w))"
  by (cases d) auto

lemma str_startswith_Inr: "str_startswith v p = Inr b \<longleftrightarrow> (\<exists>s. v = YStr s \<and> b = prefix p s)"
  by (cases v) auto

lemma classify_YMap:
  "classify (YMap m) = Inr True \<longleftrightarrow>
     (\<exists>av. map_of m ''apiVersion'' = Some (YStr av) \<and> prefix ''argoproj.io/'' av
        \<and> map_of m ''kind'' = Some (YStr ''Application''))"
  by (auto simp: classify_def or_empty_dict_def str_startswith_Inr split: sum.splits option.splits if_splits)

lemma classify_not_map: "\<forall>m. doc \<noteq> YMap m \<Longrightarrow> classify doc \<noteq> Inr True"
  by (cases doc) (auto simp: classify_def or_empty_dict_def)

text \<open>
  Claim C5.  A loaded document passes the test of \<open>_is_argocd_app\<close> exactly when it is a
  mapping whose \<open>apiVersion\<close> is a string starting with \<open>argoproj.io/\<close> and whose \<open>kind\<close>
  is the string \<open>Application\<close>; in particular the kind alone does not suffice.  The
  classifier of a file returns a truth value for every file: it answers \<open>True\<close> exactly
  when the file can be read, its text parses and the document passes the test, so that an
  unreadable or unparseable file is not a match and nothing is raised.
\<close>

theorem classify_iff:
  "(classify doc = Inr True) =
     (\<exists>m av. doc = YMap m \<and> map_of m ''apiVersion'' = Some (YStr av)
        \<and> prefix ''argoproj.io/'' av \<and> map_of m ''kind'' = Some (YStr ''Application''))
   \<and> is_argocd_app e fs file_path =
     (\<exists>content m av. read_text fs file_path = Inr content \<and> safe_load e content = Inr (YMap m)
        \<and> map_of m ''apiVersion'' = Some (YStr av)
        \<and> prefix ''argoproj.io/'' av \<and> map_of m ''kind'' = Some (YStr ''Application''))"
proof -
  have doc: "(classify d = Inr True) =
     (\<exists>m av. d = YMap m \<and> map_of m ''apiVersion'' = Some (YStr av)
        \<and> prefix ''argoproj.io/'' av \<and> map_of m ''kind'' = Some (YStr ''Application''))" for d
    using classify_YMap classify_not_map by (cases d) auto
  have "is_argocd_app e fs file_path =
     (\<exists>content d. read_text fs file_path = Inr content \<and> safe_load e content = Inr d
        \<and> classify d = Inr True)"
    by (auto simp: is_argocd_app_def split: sum.splits)
  then show ?thesis unfolding doc by auto
qed

section \<open>Parameter extraction\<close>

lemma pjoin_values [simp]: "pjoin p ''values.yaml'' = p @ [''values.yaml'']"
  by (simp add: pjoin_def path_parts_def)






section \<open>Dry runs\<close>

lemma apply_helm_chart_dry:
  "apply_helm_chart e template_dir target_repo existing True force fs =
     (Inr \<lparr> pattern_id = ''helm/'' @ path_name template_dir,
            status = (if existing \<noteq> None \<and> \<not> force then ''skipped'' else ''would_apply''),
            message = (if existing \<noteq> None \<and> \<not> force then ''Helm chart already exists''
                       else ''Would create Helm chart at '' @
                            path_str (pjoin (pjoin (pjoin target_repo ''deployments'') ''helm'')
                                        (path_name template_dir))) \<rparr>, fs)"
  by (simp add: apply_helm_chart_def Let_def)

lemma apply_argocd_app_dry:
  "apply_argocd_app e template_file target_repo existing True force fs =
     (Inr \<lparr> pattern_id = ''argocd/'' @ str_replace ''-application'' [] (path_stem template_file),
            status = (if existing \<noteq> None \<and> \<not> force then ''skipped'' else ''would_apply''),
            message = (if existing \<noteq> None \<and> \<not> force then ''ArgoCD application already exists''
                       else ''Would create ArgoCD app at '' @
                            path_str (pjoin (pjoin (pjoin target_repo ''deployments'') ''argocd'')
                                        (path_name template_file))) \<rparr>, fs)"
  by (simp add: apply_argocd_app_def Let_def)

lemma takeWhile_helm: "takeWhile (\<lambda>c. c \<noteq> CHR ''/'') (''helm/'' @ x) = ''helm''"
  by simp

lemma takeWhile_argocd: "takeWhile (\<lambda>c. c \<noteq> CHR ''/'') (''argocd/'' @ x) = ''argocd''"
  by simp

lemma apply_helm_chart_dry_ok:
  "\<exists>r. apply_helm_chart e template_dir target_repo (existing_type existing ''helm'') True force fs
         = (Inr r, fs) \<and> dry_ok existing force r"
  by (simp add: apply_helm_chart_dry dry_ok_def)

lemma apply_argocd_app_dry_ok:
  "\<exists>r. apply_argocd_app e template_file target_repo (existing_type existing ''argocd'') True force fs
         = (Inr r, fs) \<and> dry_ok existing force r"
  by (simp add: apply_argocd_app_dry dry_ok_def)

lemma apply_entries_loop_dry:
  "snd (apply_entries_loop e entries target_repo existing True force results fs) = fs
   \<and> (\<forall>rs. (\<forall>r \<in> set results. dry_ok existing force r)
         \<and> fst (apply_entries_loop e entries target_repo existing True force results fs) = Inr rs
       \<longrightarrow> (\<forall>r \<in> set rs. dry_ok existing force r))"
proof (induction entries arbitrary: results)
  case Nil
  then show ?case by simp
next
  case (Cons p entries)
  obtain rh where rh: "apply_helm_chart e p target_repo (existing_type existing ''helm'') True force fs
         = (Inr rh, fs)" "dry_ok existing force rh"
    using apply_helm_chart_dry_ok by blast
  obtain ra where ra: "apply_argocd_app e p target_repo (existing_type existing ''argocd'') True force fs
         = (Inr ra, fs)" "dry_ok existing force ra"
    using apply_argocd_app_dry_ok by blast
  consider (h) "is_dir fs p" | (a) "\<not> is_dir fs p" "path_suffix p \<in> {''.yaml'', ''.yml''}"
    | (n) "\<not> is_dir fs p" "path_suffix p \<notin> {''.yaml'', ''.yml''}"
    by blast
  then show ?case
  proof cases
    case h
    then have "apply_entries_loop e (p # entries) target_repo existing True force results fs
        = apply_entries_loop e entries target_repo existing True force (results @ [rh]) fs"
      using rh(1) by simp
    then show ?thesis using Cons.IH [of "results @ [rh]"] rh(2) by simp
  next
    case a
    then have "apply_entries_loop e (p # entries) target_repo existing True force results fs
        = apply_entries_loop e entries target_repo existing True force (results @ [ra]) fs"
      using ra(1) by simp
    then show ?thesis using Cons.IH [of "results @ [ra]"] ra(2) by simp
  next
    case n
    then have "apply_entries_loop e (p # entries) target_repo existing True force results fs
        = apply_entries_loop e entries target_repo existing True force results fs"
      by simp
    then show ?thesis using Cons.IH [of results] by simp
  qed
qed

lemma apply_types_loop_dry:
  "snd (apply_types_loop e types template_dir target_repo existing True force results fs) = fs
   \<and> (\<forall>rs. (\<forall>r \<in> set results. dry_ok existing force r)
         \<and> fst (apply_types_loop e types template_dir target_repo existing True force results fs)
            = Inr rs
       \<longrightarrow> (\<forall>r \<in> set rs. dry_ok existing force r))"
proof (induction types arbitrary: results)
  case Nil
  then show ?case by simp
next
  case (Cons ty types)
  show ?case
  proof (cases "exists fs (pjoin template_dir ty)")
    case False
    then show ?thesis using Cons.IH [of results] by (simp add: Let_def)
  next
    case True
    show ?thesis
    proof (cases "iterdir fs (pjoin template_dir ty)")
      case (Inl x)
      then show ?thesis using True by (simp add: Let_def)
    next
      case (Inr entries)
      obtain res fs1 where l: "apply_entries_loop e entries target_repo existing True force results fs = (res, fs1)"
        by (cases "apply_entries_loop e entries target_repo existing True force results fs")
      with apply_entries_loop_dry [of e entries target_repo existing force results fs]
      have fs1: "fs1 = fs" and ok: "\<And>rs. (\<forall>r \<in> set results. dry_ok existing force r) \<Longrightarrow> res = Inr rs
          \<Longrightarrow> (\<forall>r \<in> set rs. dry_ok existing force r)"
        by auto
      show ?thesis
      proof (cases res)
        case (Inl x)
        then show ?thesis using True Inr l fs1 by (simp add: Let_def)
      next
        case (Inr rs1)
        then show ?thesis
          using True \<open>iterdir fs (pjoin template_dir ty) = Inr entries\<close> l fs1 ok [of rs1] Cons.IH [of rs1]
          by (auto simp: Let_def)
      qed
    qed
  qed
qed

text \<open>
  Claim C1, as the code has it.  With \<open>dry_run\<close> set, \<open>apply_patterns\<close> leaves the
  filesystem as it was, and every result it returns is \<open>skipped\<close> when the scan of the
  target found a pattern of the result's kind (\<open>helm\<close> or \<open>argocd\<close>, the part of the
  pattern identifier before the slash) and \<open>force\<close> is off, and \<open>would_apply\<close> otherwise:
  the test for an existing pattern comes before the test for a dry run.
\<close>

theorem apply_patterns_dry_run:
  "apply_patterns e template_dir target_repo True force fs = (res, fs') \<Longrightarrow>
     fs' = fs \<and>
     (\<forall>rs. res = Inr rs \<longrightarrow>
        (\<forall>r \<in> set rs.
           status r =
             (if existing_type (fst (scan_repository e fs target_repo))
                   (takeWhile (\<lambda>c. c \<noteq> CHR ''/'') (pattern_id r)) \<noteq> None \<and> \<not> force
              then ''skipped'' else ''would_apply'')))"
  using apply_types_loop_dry [of e "[''helm'', ''argocd'']" template_dir target_repo
      "fst (scan_repository e fs target_repo)" force "[]" fs]
  by (auto simp: apply_patterns_def Let_def dry_ok_def)

lemma apply_helm_template_dry:
  "snd (apply_helm_template e t target_repo vs True fs) = fs"
  by (simp add: apply_helm_template_def Let_def split: yaml.splits)

lemma apply_argocd_template_dry:
  "snd (apply_argocd_template e t target_repo vs True fs) = fs"
  by (simp add: apply_argocd_template_def Let_def split: sum.splits)

lemma apply_helm_template_dryD:
  "apply_helm_template e t target_repo vs True fs = (r, fs') \<Longrightarrow> fs' = fs"
  using apply_helm_template_dry [of e t target_repo vs fs] by simp

lemma apply_argocd_template_dryD:
  "apply_argocd_template e t target_repo vs True fs = (r, fs') \<Longrightarrow> fs' = fs"
  using apply_argocd_template_dry [of e t target_repo vs fs] by simp

lemma apply_direct_loop_dry:
  "snd (apply_direct_loop e templates target_repo True results fs) = fs"
proof (induction templates arbitrary: results)
  case Nil
  then show ?case by simp
next
  case (Cons t templates)
  show ?case
    using Cons.IH
    by (auto split: sum.splits prod.splits
             dest!: apply_helm_template_dryD apply_argocd_template_dryD)
qed

lemma scan_c1: "scan_repository c1_env c1_fs [''target''] =
  ([\<lparr>ptype = ''helm'', pname = YStr ''old'', ppath = [''target'', ''charts'', ''old''],
       configs = [], version = Some (YStr ''0.1.0''), template_count = None, source_type = None\<rparr>], [])"
  by (simp add: c1_env_def c1_fs_def scan_defs fs_defs path_defs)

theorem apply_patterns_dry_run_skips:
  "apply_patterns c1_env [''templates''] [''target''] True False c1_fs =
     (Inr [\<lparr> pattern_id = ''helm/demo'', status = ''skipped'',
              message = ''Helm chart already exists'' \<rparr>,
           \<lparr> pattern_id = ''argocd/demo'', status = ''would_apply'',
              message = ''Would create ArgoCD app at target/deployments/argocd/demo-application.yaml'' \<rparr>],
      c1_fs)"
  unfolding apply_patterns_def scan_c1
  by (simp add: c1_fs_def apply_helm_chart_def apply_argocd_app_def existing_type_def fs_defs path_defs Let_def)

theorem apply_patterns_dry_run_witness:
  "apply_patterns c1_env [''templates''] [''target''] True True c1_fs =
     (Inr [\<lparr> pattern_id = ''helm/demo'', status = ''would_apply'',
              message = ''Would create Helm chart at target/deployments/helm/demo'' \<rparr>,
           \<lparr> pattern_id = ''argocd/demo'', status = ''would_apply'',
              message = ''Would create ArgoCD app at target/deployments/argocd/demo-application.yaml'' \<rparr>],
      c1_fs)
   \<and> existing_type (fst (scan_repository c1_env c1_fs [''target''])) ''helm'' \<noteq> None"
proof -
  have h: "apply_patterns c1_env [''templates''] [''target''] True True c1_fs =
     (Inr [\<lparr> pattern_id = ''helm/demo'', status = ''would_apply'',
              message = ''Would create Helm chart at target/deployments/helm/demo'' \<rparr>,
           \<lparr> pattern_id = ''argocd/demo'', status = ''would_apply'',
              message = ''Would create ArgoCD app at target/deployments/argocd/demo-application.yaml'' \<rparr>],
      c1_fs)"
    unfolding apply_patterns_def scan_c1
    by (simp add: c1_fs_def apply_helm_chart_def apply_argocd_app_def existing_type_def fs_defs
          path_defs Let_def)
  from apply_patterns_dry_run [OF h] h show ?thesis
    by (simp add: scan_c1 existing_type_def)
qed

text \<open>
  Claim C8.  With \<open>dry_run\<close> set, applying from a template directory and applying
  templates held in memory both leave the filesystem exactly as it was, whatever they
  return or raise.
\<close>

theorem dry_run_frame:
  "snd (apply_patterns e template_dir target_repo True force fs) = fs
   \<and> snd (apply_patterns_direct e templates target_repo True fs) = fs"
  using apply_types_loop_dry [of e "[''helm'', ''argocd'']" template_dir target_repo
      "fst (scan_repository e fs target_repo)" force "[]" fs]
  by (simp add: apply_patterns_def apply_patterns_direct_def apply_direct_loop_dry Let_def)

section \<open>The direct apply path\<close>















section \<open>The renderer\<close>














section \<open>The scanner\<close>












subsection \<open>Identity of patterns\<close>






















end
